theory Spec2Isabelle
  imports Main
begin

section \<open>Python values shared by both modules\<close>

text \<open>
  An exception is kept as its class and the text that \<^verbatim>\<open>str(err)\<close> gives. Every
  \<^verbatim>\<open>raise\<close> of the source, and every raise of a collaborator the source calls,
  is the \<open>Inl\<close> branch of a sum.
\<close>

datatype exn_kind = ValueError | KeyError | IndexError | AttributeError | ExternalError

datatype py_exception = PyExc exn_kind string

fun str_exc :: "py_exception \<Rightarrow> string" where
  "str_exc (PyExc k m) = m"

text \<open>
  The text of the \<^verbatim>\<open>AttributeError\<close> for a missing attribute of an object of a
  class, and of the \<^verbatim>\<open>KeyError\<close> for a missing string key (the key in quotes).
\<close>

definition squote :: string where
  "squote = [CHR 0x27]"

definition no_attribute :: "string \<Rightarrow> string \<Rightarrow> py_exception" where
  "no_attribute cls attr =
     PyExc AttributeError (squote @ cls @ squote @ '' object has no attribute '' @ squote @ attr @ squote)"

definition key_error :: "string \<Rightarrow> py_exception" where
  "key_error k = PyExc KeyError (squote @ k @ squote)"

text \<open>
  The outside world (the language model, the database behind the tools, the
  chat-completion service) is a state of an arbitrary type \<open>'w\<close> that every external
  call reads and replaces; the calls made are recorded, in order, in a trace.
\<close>

record ('w, 'e) io =
  world :: 'w
  trace :: "'e list"

definition emit :: "'e \<Rightarrow> ('w, 'e) io \<Rightarrow> ('w, 'e) io" where
  "emit e st = st\<lparr>trace := trace st @ [e]\<rparr>"

section \<open>utils.py: strings\<close>

text \<open>
  A \<open>char\<close> stands for a code point below 256. \<^verbatim>\<open>str.strip()\<close> removes the
  characters for which \<^verbatim>\<open>str.isspace\<close> holds (9 to 13, 28 to 32, 133 and 160 in
  that range) from both ends; \<^verbatim>\<open>str.lower()\<close> maps A to Z, and the capital letters
  192 to 222 other than the multiplication sign 215, to the letter 32 places further.
\<close>

definition py_isspace :: "char \<Rightarrow> bool" where
  "py_isspace c =
     (let n = (of_char c :: nat)
      in (9 \<le> n \<and> n \<le> 13) \<or> (28 \<le> n \<and> n \<le> 32) \<or> n = 133 \<or> n = 160)"

definition py_strip :: "string \<Rightarrow> string" where
  "py_strip s = rev (dropWhile py_isspace (rev (dropWhile py_isspace s)))"

definition py_lower_char :: "char \<Rightarrow> char" where
  "py_lower_char c =
     (let n = (of_char c :: nat)
      in if (65 \<le> n \<and> n \<le> 90) \<or> (192 \<le> n \<and> n \<le> 222 \<and> n \<noteq> 215)
         then char_of (n + 32) else c)"

definition py_lower :: "string \<Rightarrow> string" where
  "py_lower s = map py_lower_char s"

section \<open>utils.py: judge_sql_similarity\<close>

text \<open>
  The request sent to \<^verbatim>\<open>client.chat.completions.create\<close> and what comes back: an
  exception, or a response whose \<^verbatim>\<open>choices\<close> each carry a message content that
  may be \<^verbatim>\<open>None\<close>. Building the client (\<^verbatim>\<open>OpenAI()\<close>) happens in the same
  \<^verbatim>\<open>try\<close> block and is part of the same outcome.
\<close>

record chat_request =
  req_model :: string
  req_messages :: "(string \<times> string) list"
  req_temperature :: int

type_synonym 'w openai = "chat_request \<Rightarrow> 'w \<Rightarrow> (py_exception + string option list) \<times> 'w"

definition newline :: string where
  "newline = [CHR 0x0A]"

definition indent :: string where
  "indent = replicate 12 (CHR '' '')"

definition dquote :: string where
  "dquote = [CHR 0x22]"

definition judge_prompt :: "string \<Rightarrow> string \<Rightarrow> string \<Rightarrow> string" where
  "judge_prompt nlq sql1 sql2 = concat
     [newline,
      indent, ''You are a SQL expert. A user asked a question, and two SQL queries were generated in response. '',
      ''Judge if both queries are equivalent in meaning and would produce the similar result. '',
      ''If there are extra columns like ID column etc. that is fine. '',
      ''When executed, they should produce a similar result. '',
      ''For instance, if the question is to fetch all doctor names, then getting doctor names with Doctor ID is fine '',
      ''but getting the appointments of doctors is not correct.'', newline,
      indent, newline,
      indent, ''Respond ONLY with one of the following:'', newline,
      indent, ''- '', dquote, ''Equivalent'', dquote, newline,
      indent, ''- '', dquote, ''Not Equivalent'', dquote, newline,
      indent, newline,
      indent, ''User Question: '', nlq, newline,
      indent, newline,
      indent, ''Query 1:'', newline,
      indent, sql1, newline,
      indent, newline,
      indent, ''Query 2:'', newline,
      indent, sql2, newline,
      indent, newline,
      indent, ''Are the queries equivalent?'', newline,
      indent]"

definition judge_request :: "string \<Rightarrow> chat_request" where
  "judge_request prompt =
     \<lparr>req_model = ''gpt-4o'', req_messages = [(''user'', prompt)], req_temperature = 0\<rparr>"

text \<open>
  The body of the \<^verbatim>\<open>try\<close> block: the call, then
  \<^verbatim>\<open>resp.choices[0].message.content.strip()\<close>, which raises on an empty list of
  choices and on a content that is \<^verbatim>\<open>None\<close>.
\<close>

definition judge_try :: "'w openai \<Rightarrow> string \<Rightarrow> 'w \<Rightarrow> (py_exception + string) \<times> 'w" where
  "judge_try openai prompt w =
     (case openai (judge_request prompt) w of
        (Inl err, w') \<Rightarrow> (Inl err, w')
      | (Inr choices, w') \<Rightarrow>
          (case choices of
             [] \<Rightarrow> (Inl (PyExc IndexError ''list index out of range''), w')
           | c # _ \<Rightarrow>
               (case c of
                  None \<Rightarrow> (Inl (no_attribute ''NoneType'' ''strip''), w')
                | Some content \<Rightarrow> (Inr (py_strip content), w'))))"

datatype event = Sleep nat | GetSqlCall string | JudgeCall string string string

text \<open>
  The function as its caller sees it: a result that is either a raised exception or
  the returned string. The \<^verbatim>\<open>except Exception\<close> handler turns every exception of
  the \<^verbatim>\<open>try\<close> block into the string \<^verbatim>\<open>"Error"\<close>. What the functions of this
  module print is left out throughout.
\<close>

definition judge_sql_similarity ::
  "'w openai \<Rightarrow> string \<Rightarrow> string \<Rightarrow> string \<Rightarrow> ('w, event) io \<Rightarrow> (py_exception + string) \<times> ('w, event) io" where
  "judge_sql_similarity openai nlq sql1 sql2 st =
     (let st0 = emit (JudgeCall nlq sql1 sql2) st;
          prompt = judge_prompt nlq sql1 sql2
      in case judge_try openai prompt (world st0) of
           (Inr decision, w') \<Rightarrow> (Inr decision, st0\<lparr>world := w'\<rparr>)
         | (Inl err, w') \<Rightarrow> (Inr ''Error'', st0\<lparr>world := w'\<rparr>))"

section \<open>utils.py: evaluate\<close>

record test_case =
  question :: string
  actual_query :: string

text \<open>
  A result dictionary. The key \<^verbatim>\<open>error\<close> is present in a failure record only:
  \<open>None\<close> in the field \<open>error\<close> means that the key is absent.
\<close>

record eval_result =
  res_question :: string
  expected_sql :: string
  generated_sql :: "string option"
  exact_match :: bool
  llm_judged_equivalent :: "string option"
  error :: "string option"

text \<open>
  What \<^verbatim>\<open>sql_helper.get_sql\<close> returns, following the docstring of \<^verbatim>\<open>evaluate\<close>:
  \<^verbatim>\<open>None\<close>, or a sequence whose elements are strings or \<^verbatim>\<open>None\<close>; or it raises.
  A test case is a dictionary with both of its keys.
\<close>

type_synonym gen_value = "string option list option"

type_synonym 'w sql_helper = "string \<Rightarrow> 'w \<Rightarrow> (py_exception + gen_value) \<times> 'w"

definition sleep :: "nat \<Rightarrow> ('w, event) io \<Rightarrow> ('w, event) io" where
  "sleep n st = emit (Sleep n) st"

definition call_get_sql ::
  "'w sql_helper \<Rightarrow> string \<Rightarrow> ('w, event) io \<Rightarrow> (py_exception + gen_value) \<times> ('w, event) io" where
  "call_get_sql sql_helper nlq st =
     (let st0 = emit (GetSqlCall nlq) st
      in case sql_helper nlq (world st0) of (r, w') \<Rightarrow> (r, st0\<lparr>world := w'\<rparr>))"

text \<open>The inner \<^verbatim>\<open>try\<close> of lines 140 to 146: one attempt, and one more after 4 seconds.\<close>

definition generate ::
  "'w sql_helper \<Rightarrow> string \<Rightarrow> ('w, event) io \<Rightarrow> (py_exception + gen_value) \<times> ('w, event) io" where
  "generate sql_helper nlq st =
     (case call_get_sql sql_helper nlq st of
        (Inr g, st1) \<Rightarrow> (Inr g, st1)
      | (Inl err, st1) \<Rightarrow> call_get_sql sql_helper nlq (sleep 4 st1))"

text \<open>
  \<^verbatim>\<open>not generated_sql or not generated_sql[0]\<close>: \<^verbatim>\<open>None\<close> and the empty sequence
  are falsy, and so are a first element \<^verbatim>\<open>None\<close> and the empty string. The value
  is the first element when the test lets it through.
\<close>

fun first_sql :: "gen_value \<Rightarrow> string option" where
  "first_sql None = None"
| "first_sql (Some []) = None"
| "first_sql (Some (None # _)) = None"
| "first_sql (Some (Some s # _)) = (if s = [] then None else Some s)"

text \<open>The \<^verbatim>\<open>try\<close> of lines 160 to 167 around the judge, with its handler.\<close>

definition judge_with_retry ::
  "'w openai \<Rightarrow> string \<Rightarrow> string \<Rightarrow> string \<Rightarrow> ('w, event) io \<Rightarrow> (py_exception + string) \<times> ('w, event) io" where
  "judge_with_retry openai nlq expected generated st =
     (case judge_sql_similarity openai nlq expected generated st of
        (Inr j, st1) \<Rightarrow> (Inr j, st1)
      | (Inl err, st1) \<Rightarrow> judge_sql_similarity openai nlq expected generated (sleep 4 st1))"

text \<open>The outer \<^verbatim>\<open>try\<close> block of lines 138 to 176: an exception, or the success record.\<close>

definition try_case ::
  "'w openai \<Rightarrow> 'w sql_helper \<Rightarrow> string \<Rightarrow> string \<Rightarrow> ('w, event) io \<Rightarrow> (py_exception + eval_result) \<times> ('w, event) io" where
  "try_case openai sql_helper nlq expected st =
     (case generate sql_helper nlq st of
        (Inl err, st1) \<Rightarrow> (Inl err, st1)
      | (Inr g, st1) \<Rightarrow>
          (case first_sql g of
             None \<Rightarrow> (Inl (PyExc ValueError ''Agent returned no SQL.''), st1)
           | Some sql \<Rightarrow>
               (let em = (py_lower (py_strip sql) = py_lower (py_strip expected))
                in if \<not> em
                   then (case judge_with_retry openai nlq expected sql st1 of
                           (Inl err, st2) \<Rightarrow> (Inl err, st2)
                         | (Inr j, st2) \<Rightarrow>
                             (Inr \<lparr>res_question = nlq, expected_sql = expected, generated_sql = Some sql,
                                   exact_match = em, llm_judged_equivalent = Some j, error = None\<rparr>, st2))
                   else (Inr \<lparr>res_question = nlq, expected_sql = expected, generated_sql = Some sql,
                              exact_match = em, llm_judged_equivalent = None, error = None\<rparr>, st1))))"

definition failure_record :: "string \<Rightarrow> string \<Rightarrow> py_exception \<Rightarrow> eval_result" where
  "failure_record nlq expected err =
     \<lparr>res_question = nlq, expected_sql = expected, generated_sql = None,
      exact_match = False, llm_judged_equivalent = None, error = Some (str_exc err)\<rparr>"

text \<open>One turn of the \<^verbatim>\<open>for\<close> loop: the record it appends and the state it leaves.\<close>

definition evaluate_case ::
  "'w openai \<Rightarrow> 'w sql_helper \<Rightarrow> test_case \<Rightarrow> ('w, event) io \<Rightarrow> eval_result \<times> ('w, event) io" where
  "evaluate_case openai sql_helper c st =
     (let st0 = sleep 2 st;
          nlq = question c;
          expected = actual_query c
      in case try_case openai sql_helper nlq expected st0 of
           (Inr r, st1) \<Rightarrow> (r, st1)
         | (Inl err, st1) \<Rightarrow> (failure_record nlq expected err, st1))"

fun evaluate_loop ::
  "'w openai \<Rightarrow> 'w sql_helper \<Rightarrow> test_case list \<Rightarrow> eval_result list \<Rightarrow> ('w, event) io
     \<Rightarrow> eval_result list \<times> ('w, event) io" where
  "evaluate_loop openai sql_helper [] results st = (results, st)"
| "evaluate_loop openai sql_helper (c # cs) results st =
     (case evaluate_case openai sql_helper c st of
        (r, st') \<Rightarrow> evaluate_loop openai sql_helper cs (results @ [r]) st')"

definition evaluate ::
  "'w openai \<Rightarrow> 'w sql_helper \<Rightarrow> test_case list \<Rightarrow> ('w, event) io \<Rightarrow> eval_result list \<times> ('w, event) io" where
  "evaluate openai sql_helper test_cases st = evaluate_loop openai sql_helper test_cases [] st"

section \<open>lang_graph.py: messages and the agent\<close>

text \<open>
  A tool call is a dictionary with the keys \<^verbatim>\<open>name\<close>, \<^verbatim>\<open>args\<close> and \<^verbatim>\<open>id\<close>. The
  argument mapping is handed to the tool as it is, so its type \<open>'a\<close> is left open.
\<close>

record 'a tool_call =
  tc_name :: string
  tc_args :: 'a
  tc_id :: string

datatype 'a message =
    SystemMessage string
  | HumanMessage string
  | AIMessage string "'a tool_call list"
  | ToolMessage (tool_call_id: string) (tool_name: string) (tool_content: string)

text \<open>\<^verbatim>\<open>AgentState\<close>: a dictionary with the single key \<^verbatim>\<open>messages\<close>.\<close>

record 'a agent_state =
  messages :: "'a message list"

datatype 'a agent_event = ModelInvoke "'a message list" | ToolInvoke string 'a

type_synonym ('w, 'a, 'r) tool = "'a \<Rightarrow> 'w \<Rightarrow> (py_exception + 'r) \<times> 'w"

type_synonym ('w, 'a) chat_model = "'a message list \<Rightarrow> 'w \<Rightarrow> (py_exception + 'a message) \<times> 'w"

text \<open>
  The attributes of an \<^verbatim>\<open>Agent\<close>: the system prompt, the dictionary of tools by
  name and the model bound to the tools. \<open>str_result\<close> is Python's \<^verbatim>\<open>str\<close> on
  the results that the tools return, whose type \<open>'r\<close> is left open.
\<close>

record ('w, 'a, 'r) agent =
  system :: string
  tools :: "string \<rightharpoonup> ('w, 'a, 'r) tool"
  model :: "('w, 'a) chat_model"
  str_result :: "'r \<Rightarrow> string"

text \<open>
  \<^verbatim>\<open>{tool.name: tool for tool in tools}\<close>: of two tools with one name the later one
  stays.
\<close>

definition tools_dict :: "(string \<times> ('w, 'a, 'r) tool) list \<Rightarrow> (string \<rightharpoonup> ('w, 'a, 'r) tool)" where
  "tools_dict ts = map_of (rev ts)"

definition agent_init ::
  "('w, 'a) chat_model \<Rightarrow> (string \<times> ('w, 'a, 'r) tool) list \<Rightarrow> string \<Rightarrow> ('r \<Rightarrow> string) \<Rightarrow> ('w, 'a, 'r) agent" where
  "agent_init m ts sys str_of = \<lparr>system = sys, tools = tools_dict ts, model = m, str_result = str_of\<rparr>"

text \<open>
  \<^verbatim>\<open>state['messages'][-1]\<close> raises on an empty list, and \<^verbatim>\<open>.tool_calls\<close> is an
  attribute of assistant messages only.
\<close>

definition last_message :: "'a agent_state \<Rightarrow> py_exception + 'a message" where
  "last_message state =
     (case messages state of
        [] \<Rightarrow> Inl (PyExc IndexError ''list index out of range'')
      | m # ms \<Rightarrow> Inr (last (m # ms)))"

fun tool_calls :: "'a message \<Rightarrow> py_exception + 'a tool_call list" where
  "tool_calls (AIMessage c tcs) = Inr tcs"
| "tool_calls (SystemMessage c) = Inl (no_attribute ''SystemMessage'' ''tool_calls'')"
| "tool_calls (HumanMessage c) = Inl (no_attribute ''HumanMessage'' ''tool_calls'')"
| "tool_calls (ToolMessage i n c) = Inl (no_attribute ''ToolMessage'' ''tool_calls'')"

definition call_openai ::
  "('w, 'a, 'r) agent \<Rightarrow> 'a agent_state \<Rightarrow> ('w, 'a agent_event) io
     \<Rightarrow> (py_exception + 'a message list) \<times> ('w, 'a agent_event) io" where
  "call_openai agent state st =
     (let msgs = messages state;
          msgs = (if system agent \<noteq> [] then [SystemMessage (system agent)] @ msgs else msgs);
          st0 = emit (ModelInvoke msgs) st
      in case model agent msgs (world st0) of
           (Inl err, w') \<Rightarrow> (Inl err, st0\<lparr>world := w'\<rparr>)
         | (Inr message, w') \<Rightarrow> (Inr [message], st0\<lparr>world := w'\<rparr>))"

definition exists_action :: "'a agent_state \<Rightarrow> py_exception + bool" where
  "exists_action state =
     (case last_message state of
        Inl err \<Rightarrow> Inl err
      | Inr result \<Rightarrow>
          (case tool_calls result of
             Inl err \<Rightarrow> Inl err
           | Inr tcs \<Rightarrow> Inr (length tcs > 0)))"

text \<open>
  The \<^verbatim>\<open>for\<close> loop of \<^verbatim>\<open>take_action\<close>. \<^verbatim>\<open>self.tools[t['name']]\<close> raises
  \<^verbatim>\<open>KeyError\<close> for a name that is not in the dictionary, and an exception of a tool
  leaves the loop.
\<close>

fun take_action_loop ::
  "('w, 'a, 'r) agent \<Rightarrow> 'a tool_call list \<Rightarrow> 'a message list \<Rightarrow> ('w, 'a agent_event) io
     \<Rightarrow> (py_exception + 'a message list) \<times> ('w, 'a agent_event) io" where
  "take_action_loop agent [] results st = (Inr results, st)"
| "take_action_loop agent (t # ts) results st =
     (case tools agent (tc_name t) of
        None \<Rightarrow> (Inl (key_error (tc_name t)), st)
      | Some tool \<Rightarrow>
          (let st0 = emit (ToolInvoke (tc_name t) (tc_args t)) st
           in case tool (tc_args t) (world st0) of
                (Inl err, w') \<Rightarrow> (Inl err, st0\<lparr>world := w'\<rparr>)
              | (Inr result, w') \<Rightarrow>
                  take_action_loop agent ts
                    (results @ [ToolMessage (tc_id t) (tc_name t) (str_result agent result)])
                    (st0\<lparr>world := w'\<rparr>)))"

definition take_action ::
  "('w, 'a, 'r) agent \<Rightarrow> 'a agent_state \<Rightarrow> ('w, 'a agent_event) io
     \<Rightarrow> (py_exception + 'a message list) \<times> ('w, 'a agent_event) io" where
  "take_action agent state st =
     (case last_message state of
        Inl err \<Rightarrow> (Inl err, st)
      | Inr m \<Rightarrow>
          (case tool_calls m of
             Inl err \<Rightarrow> (Inl err, st)
           | Inr tcs \<Rightarrow> take_action_loop agent tcs [] st))"

section \<open>lang_graph.py: the graph built by the constructor\<close>

text \<open>
  The constructor wires two nodes: \<^verbatim>\<open>llm\<close> (the entry point, \<^verbatim>\<open>call_openai\<close>) and
  \<^verbatim>\<open>action\<close> (\<^verbatim>\<open>take_action\<close>), a conditional edge from \<^verbatim>\<open>llm\<close> that
  \<^verbatim>\<open>exists_action\<close> sends to \<^verbatim>\<open>action\<close> or to \<^verbatim>\<open>END\<close>, and an edge from
  \<^verbatim>\<open>action\<close> back to \<^verbatim>\<open>llm\<close>. The annotation \<^verbatim>\<open>operator.add\<close> on
  \<^verbatim>\<open>messages\<close> makes the graph join what a node returns to the end of the list.
  The graph library itself is not part of the repository: what follows is the
  execution that this wiring describes, with no bound on the number of steps.
\<close>

datatype node = Llm | Action | END

definition add_messages :: "'a agent_state \<Rightarrow> 'a message list \<Rightarrow> 'a agent_state" where
  "add_messages state update = state\<lparr>messages := messages state @ update\<rparr>"

definition graph_step ::
  "('w, 'a, 'r) agent \<Rightarrow> node \<Rightarrow> 'a agent_state \<Rightarrow> ('w, 'a agent_event) io
     \<Rightarrow> (py_exception + node \<times> 'a agent_state) \<times> ('w, 'a agent_event) io" where
  "graph_step agent n state st =
     (case n of
        Llm \<Rightarrow>
          (case call_openai agent state st of
             (Inl err, st') \<Rightarrow> (Inl err, st')
           | (Inr update, st') \<Rightarrow>
               (let state' = add_messages state update
                in case exists_action state' of
                     Inl err \<Rightarrow> (Inl err, st')
                   | Inr b \<Rightarrow> (Inr (if b then Action else END, state'), st')))
      | Action \<Rightarrow>
          (case take_action agent state st of
             (Inl err, st') \<Rightarrow> (Inl err, st')
           | (Inr update, st') \<Rightarrow> (Inr (Llm, add_messages state update), st'))
      | END \<Rightarrow> (Inr (END, state), st))"

text \<open>
  Running the graph from a node. The loop has no bound, so a run that never reaches
  \<^verbatim>\<open>END\<close> has the value \<open>None\<close>; an exception of a node ends the run.
\<close>

partial_function (option) graph_run ::
  "('w, 'a, 'r) agent \<Rightarrow> node \<Rightarrow> 'a agent_state \<Rightarrow> ('w, 'a agent_event) io
     \<Rightarrow> ((py_exception + 'a agent_state) \<times> ('w, 'a agent_event) io) option" where
  "graph_run agent n state st =
     (if n = END then Some (Inr state, st)
      else case graph_step agent n state st of
             (Inl err, st') \<Rightarrow> Some (Inl err, st')
           | (Inr (n', state'), st') \<Rightarrow> graph_run agent n' state' st')"

text \<open>\<^verbatim>\<open>agent.graph.invoke({"messages": msgs})\<close>: the run operation.\<close>

definition graph_invoke ::
  "('w, 'a, 'r) agent \<Rightarrow> 'a message list \<Rightarrow> ('w, 'a agent_event) io
     \<Rightarrow> ((py_exception + 'a agent_state) \<times> ('w, 'a agent_event) io) option" where
  "graph_invoke agent msgs st = graph_run agent Llm \<lparr>messages = msgs\<rparr> st"

text \<open>One step of a run that has not ended, as a relation between configurations.\<close>

definition graph_next ::
  "('w, 'a, 'r) agent \<Rightarrow> node \<times> 'a agent_state \<times> ('w, 'a agent_event) io
     \<Rightarrow> node \<times> 'a agent_state \<times> ('w, 'a agent_event) io \<Rightarrow> bool" where
  "graph_next agent c c' =
     (case c of (n, state, st) \<Rightarrow>
        (case c' of (n', state', st') \<Rightarrow>
           n \<noteq> END \<and> graph_step agent n state st = (Inr (n', state'), st')))"

section \<open>Predicates on traces and records\<close>

text \<open>The events that are calls of \<^verbatim>\<open>judge_sql_similarity\<close>.\<close>

definition is_judge_call :: "event \<Rightarrow> bool" where
  "is_judge_call e = (case e of JudgeCall q a b \<Rightarrow> True | _ \<Rightarrow> False)"


section \<open>Equality up to case and surrounding whitespace\<close>





section \<open>A chat-completion service and a SQL helper to run the evaluation on\<close>

text \<open>
  The world is a counter of the calls of \<^verbatim>\<open>get_sql\<close>. The helper always raises
  on the question \<^verbatim>\<open>broken\<close>, returns an empty list on \<^verbatim>\<open>empty\<close>, raises on
  \<^verbatim>\<open>flaky\<close> at the very first call only, and returns a query otherwise.
\<close>

definition openai_ok :: "nat openai" where
  "openai_ok req n = (Inr [Some '' Equivalent '', Some ''Not Equivalent''], n)"

definition openai_maybe :: "nat openai" where
  "openai_maybe req n = (Inr [Some '' Maybe ''], n)"

definition openai_down :: "nat openai" where
  "openai_down req n = (Inl (PyExc ExternalError ''rate limit''), n)"

definition helper_script :: "nat sql_helper" where
  "helper_script q n =
     (if q = ''broken'' then (Inl (PyExc ExternalError ''boom''), Suc n)
      else if q = ''empty'' then (Inr (Some []), Suc n)
      else if q = ''flaky'' \<and> n = 0 then (Inl (PyExc ExternalError ''timeout''), Suc n)
      else (Inr (Some [Some ''select name from doctors'']), Suc n))"




definition start :: "(nat, event) io" where
  "start = \<lparr>world = 0, trace = []\<rparr>"


section \<open>What the tool calls of a message return\<close>

text \<open>
  Follows the words of the specification, to be compared with \<open>take_action\<close>:
  invoking, in the order of the calls, the tool that each call names with the
  arguments of that call. The value is \<open>None\<close> when a name is not registered or a
  tool raises, and the list of the results with the world left behind otherwise.
\<close>

fun tool_results ::
  "('w, 'a, 'r) agent \<Rightarrow> 'a tool_call list \<Rightarrow> 'w \<Rightarrow> ('r list \<times> 'w) option" where
  "tool_results agent [] w = Some ([], w)"
| "tool_results agent (t # ts) w =
     (case tools agent (tc_name t) of
        None \<Rightarrow> None
      | Some tool \<Rightarrow>
          (case tool (tc_args t) w of
             (Inl err, w1) \<Rightarrow> None
           | (Inr r, w1) \<Rightarrow>
               (case tool_results agent ts w1 of
                  None \<Rightarrow> None
                | Some (rs, w') \<Rightarrow> Some (r # rs, w'))))"

text \<open>The tool-result message for a call and its result, and the event of the call.\<close>

definition tool_message :: "('w, 'a, 'r) agent \<Rightarrow> 'a tool_call \<times> 'r \<Rightarrow> 'a message" where
  "tool_message agent p = (case p of (t, r) \<Rightarrow> ToolMessage (tc_id t) (tc_name t) (str_result agent r))"

definition tool_event :: "'a tool_call \<Rightarrow> 'a agent_event" where
  "tool_event t = ToolInvoke (tc_name t) (tc_args t)"

definition is_model_invoke :: "'a agent_event \<Rightarrow> bool" where
  "is_model_invoke e = (case e of ModelInvoke msgs \<Rightarrow> True | _ \<Rightarrow> False)"

section \<open>An agent to run the graph on\<close>

text \<open>
  The world is a counter of the calls of the model. The model asks for one call of the
  tool \<^verbatim>\<open>run_sql\<close> when it is called for the first time and answers without tool
  calls afterwards. One agent has the tool, the other has no tool at all.
\<close>

definition run_sql_tool :: "(nat, string, string) tool" where
  "run_sql_tool a n = (Inr (''rows of '' @ a), n)"

definition call_1 :: "string tool_call" where
  "call_1 = \<lparr>tc_name = ''run_sql'', tc_args = ''SELECT 1'', tc_id = ''call_1''\<rparr>"

definition model_two_turn :: "(nat, string) chat_model" where
  "model_two_turn msgs n =
     (if n = 0 then Inr (AIMessage [] [call_1]) else Inr (AIMessage ''done'' []), Suc n)"

definition agent_sql :: "(nat, string, string) agent" where
  "agent_sql = agent_init model_two_turn [(''run_sql'', run_sql_tool)] ''You write SQL.'' (\<lambda>r. r)"

definition agent_no_tools :: "(nat, string, string) agent" where
  "agent_no_tools = agent_init model_two_turn [] ''You write SQL.'' (\<lambda>r. r)"

definition start_a :: "(nat, string agent_event) io" where
  "start_a = \<lparr>world = 0, trace = []\<rparr>"

definition conv :: "string message list" where
  "conv = [HumanMessage ''List all doctor names'', AIMessage ''SELECT name FROM doctors'' []]"

definition final_conv :: "string message list" where
  "final_conv = conv @ [AIMessage [] [call_1], ToolMessage ''call_1'' ''run_sql'' ''rows of SELECT 1'',
                        AIMessage ''done'' []]"

definition final_io :: "(nat, string agent_event) io" where
  "final_io = \<lparr>world = 2,
       trace = [ModelInvoke (SystemMessage ''You write SQL.'' # conv),
                ToolInvoke ''run_sql'' ''SELECT 1'',
                ModelInvoke (SystemMessage ''You write SQL.'' # conv @
                  [AIMessage [] [call_1], ToolMessage ''call_1'' ''run_sql'' ''rows of SELECT 1''])]\<rparr>"

section \<open>The judge never raises\<close>

text \<open>
  On every outcome of the external call the function returns a string, so the handler
  that \<open>evaluate\<close> puts around it is never entered.
\<close>

lemma judge_sql_similarity_returns:
  "judge_sql_similarity openai nlq sql1 sql2 st =
     (Inr (case fst (judge_try openai (judge_prompt nlq sql1 sql2) (world st)) of
             Inl err \<Rightarrow> ''Error'' | Inr d \<Rightarrow> d),
      st\<lparr>world := snd (judge_try openai (judge_prompt nlq sql1 sql2) (world st)),
         trace := trace st @ [JudgeCall nlq sql1 sql2]\<rparr>)"
  by (simp add: judge_sql_similarity_def emit_def Let_def split: prod.splits sum.splits)

lemma judge_with_retry_once:
  "judge_with_retry openai nlq e g st = judge_sql_similarity openai nlq e g st"
  by (simp add: judge_with_retry_def judge_sql_similarity_returns)

section \<open>The loop of evaluate\<close>

text \<open>The records collected so far play no part in the turns that follow.\<close>

lemma evaluate_loop_acc:
  "evaluate_loop openai h cs acc st =
     (acc @ fst (evaluate_loop openai h cs [] st), snd (evaluate_loop openai h cs [] st))"
proof (induction cs arbitrary: acc st)
  case Nil
  then show ?case by simp
next
  case (Cons c cs)
  obtain r st' where step: "evaluate_case openai h c st = (r, st')"
    by (cases "evaluate_case openai h c st")
  have "evaluate_loop openai h (c # cs) acc st = evaluate_loop openai h cs (acc @ [r]) st'"
    by (simp add: step)
  also have "\<dots> = ((acc @ [r]) @ fst (evaluate_loop openai h cs [] st'), snd (evaluate_loop openai h cs [] st'))"
    by (rule Cons.IH)
  finally have lhs: "evaluate_loop openai h (c # cs) acc st =
      (acc @ r # fst (evaluate_loop openai h cs [] st'), snd (evaluate_loop openai h cs [] st'))"
    by simp
  have "evaluate_loop openai h (c # cs) [] st = evaluate_loop openai h cs [r] st'"
    by (simp add: step)
  also have "\<dots> = ([r] @ fst (evaluate_loop openai h cs [] st'), snd (evaluate_loop openai h cs [] st'))"
    by (rule Cons.IH)
  finally have rhs: "evaluate_loop openai h (c # cs) [] st =
      (r # fst (evaluate_loop openai h cs [] st'), snd (evaluate_loop openai h cs [] st'))"
    by simp
  show ?case by (simp only: lhs rhs fst_conv snd_conv)
qed


lemma evaluate_Cons:
  "evaluate openai h (c # cs) st =
     (fst (evaluate_case openai h c st) # fst (evaluate openai h cs (snd (evaluate_case openai h c st))),
      snd (evaluate openai h cs (snd (evaluate_case openai h c st))))"
proof -
  obtain r st' where step: "evaluate_case openai h c st = (r, st')"
    by (cases "evaluate_case openai h c st")
  have "evaluate openai h (c # cs) st = evaluate_loop openai h cs [r] st'"
    by (simp add: evaluate_def step)
  also have "\<dots> = ([r] @ fst (evaluate_loop openai h cs [] st'), snd (evaluate_loop openai h cs [] st'))"
    by (rule evaluate_loop_acc)
  finally show ?thesis by (simp add: step evaluate_def)
qed



lemma generate_no_judge:
  "generate h q st = (r, st') \<Longrightarrow> filter is_judge_call (trace st') = filter is_judge_call (trace st)"
  by (auto simp: generate_def call_get_sql_def sleep_def emit_def Let_def is_judge_call_def
      split: prod.splits sum.splits)

lemma first_sql_None_iff:
  "first_sql g = None \<longleftrightarrow>
     g = None \<or> g = Some [] \<or> (\<exists>rest. g = Some (None # rest)) \<or> (\<exists>rest. g = Some (Some [] # rest))"
  by (induction g rule: first_sql.induct) auto

section \<open>strip() and lower() against equality up to case and whitespace\<close>










section \<open>Properties of evaluate\<close>






text \<open>
  Claim C3. When the first call of \<^verbatim>\<open>get_sql\<close> raises, \<open>evaluate\<close> sleeps 4 units
  and calls it once more. If the second call raises too, the record of the case has no
  SQL, no exact match, no judgment and the text of the second exception, and no third
  call is made. If the second call returns a non-empty SQL string, the record is a
  success record without the key \<^verbatim>\<open>error\<close>. In both cases the loop goes on with the
  next case.
\<close>

theorem generation_retried_once:
  assumes first: "h (question c) (world st) = (Inl e1, w1)"
  shows "(h (question c) w1 = (Inl e2, w2) \<longrightarrow>
            evaluate_case openai h c st =
              (\<lparr>res_question = question c, expected_sql = actual_query c, generated_sql = None,
                exact_match = False, llm_judged_equivalent = None, error = Some (str_exc e2)\<rparr>,
               st\<lparr>world := w2,
                  trace := trace st @ [Sleep 2, GetSqlCall (question c), Sleep 4, GetSqlCall (question c)]\<rparr>)) \<and>
         (h (question c) w1 = (Inr g, w2) \<and> first_sql g = Some sql \<longrightarrow>
            error (fst (evaluate_case openai h c st)) = None \<and>
            generated_sql (fst (evaluate_case openai h c st)) = Some sql \<and>
            filter (\<lambda>e. \<not> is_judge_call e) (trace (snd (evaluate_case openai h c st))) =
              filter (\<lambda>e. \<not> is_judge_call e) (trace st)
                @ [Sleep 2, GetSqlCall (question c), Sleep 4, GetSqlCall (question c)]) \<and>
         fst (evaluate openai h (c # cs) st) =
           fst (evaluate_case openai h c st) # fst (evaluate openai h cs (snd (evaluate_case openai h c st)))"
proof (intro conjI impI)
  assume "h (question c) w1 = (Inl e2, w2)"
  with first show "evaluate_case openai h c st =
      (\<lparr>res_question = question c, expected_sql = actual_query c, generated_sql = None,
        exact_match = False, llm_judged_equivalent = None, error = Some (str_exc e2)\<rparr>,
       st\<lparr>world := w2,
          trace := trace st @ [Sleep 2, GetSqlCall (question c), Sleep 4, GetSqlCall (question c)]\<rparr>)"
    by (simp add: evaluate_case_def try_case_def generate_def call_get_sql_def sleep_def emit_def
        failure_record_def Let_def)
next
  assume ok: "h (question c) w1 = (Inr g, w2) \<and> first_sql g = Some sql"
  let ?st1 = "st\<lparr>world := w2,
      trace := trace st @ [Sleep 2, GetSqlCall (question c), Sleep 4, GetSqlCall (question c)]\<rparr>"
  from first ok have gen: "generate h (question c) (sleep 2 st) = (Inr g, ?st1)"
    by (simp add: generate_def call_get_sql_def sleep_def emit_def Let_def)
  from ok have sql: "first_sql g = Some sql" by simp
  from gen sql show "error (fst (evaluate_case openai h c st)) = None"
    by (simp add: evaluate_case_def try_case_def Let_def judge_with_retry_once
        judge_sql_similarity_returns)
  from gen sql show "generated_sql (fst (evaluate_case openai h c st)) = Some sql"
    by (simp add: evaluate_case_def try_case_def Let_def judge_with_retry_once
        judge_sql_similarity_returns)
  from gen sql show "filter (\<lambda>e. \<not> is_judge_call e) (trace (snd (evaluate_case openai h c st))) =
      filter (\<lambda>e. \<not> is_judge_call e) (trace st)
        @ [Sleep 2, GetSqlCall (question c), Sleep 4, GetSqlCall (question c)]"
    by (simp add: evaluate_case_def try_case_def Let_def judge_with_retry_once
        judge_sql_similarity_returns is_judge_call_def)
next
  show "fst (evaluate openai h (c # cs) st) =
      fst (evaluate_case openai h c st) # fst (evaluate openai h cs (snd (evaluate_case openai h c st)))"
    by (simp add: evaluate_Cons)
qed

theorem generation_retried_once_witness:
  "evaluate_case openai_ok helper_script \<lparr>question = ''broken'', actual_query = ''SELECT 1''\<rparr> start =
     (\<lparr>res_question = ''broken'', expected_sql = ''SELECT 1'', generated_sql = None,
       exact_match = False, llm_judged_equivalent = None, error = Some ''boom''\<rparr>,
      \<lparr>world = 2, trace = [Sleep 2, GetSqlCall ''broken'', Sleep 4, GetSqlCall ''broken'']\<rparr>) \<and>
   error (fst (evaluate_case openai_ok helper_script
      \<lparr>question = ''flaky'', actual_query = ''SELECT name FROM doctors''\<rparr> start)) = None \<and>
   generated_sql (fst (evaluate_case openai_ok helper_script
      \<lparr>question = ''flaky'', actual_query = ''SELECT name FROM doctors''\<rparr> start)) =
     Some ''select name from doctors''"
proof -
  let ?b = "\<lparr>question = ''broken'', actual_query = ''SELECT 1''\<rparr>"
  let ?f = "\<lparr>question = ''flaky'', actual_query = ''SELECT name FROM doctors''\<rparr>"
  let ?boom = "PyExc ExternalError ''boom''"
  have b1: "helper_script (question ?b) (world start) = (Inl ?boom, 1)"
    by (simp add: helper_script_def start_def)
  have b2: "helper_script (question ?b) 1 = (Inl ?boom, 2)"
    by (simp add: helper_script_def)
  have f1: "helper_script (question ?f) (world start) = (Inl (PyExc ExternalError ''timeout''), 1)"
    by (simp add: helper_script_def start_def)
  have f2: "helper_script (question ?f) 1 = (Inr (Some [Some ''select name from doctors'']), 2) \<and>
      first_sql (Some [Some ''select name from doctors'']) = Some ''select name from doctors''"
    by (simp add: helper_script_def)
  show ?thesis
    using generation_retried_once [where h = helper_script and c = ?b and st = start
        and ?e1.0 = ?boom and ?w1.0 = 1 and ?e2.0 = ?boom and ?w2.0 = 2 and openai = openai_ok
        and cs = "[]", OF b1] b2
      generation_retried_once [where h = helper_script and c = ?f and st = start
        and ?e1.0 = "PyExc ExternalError ''timeout''" and ?w1.0 = 1 and ?w2.0 = 2
        and g = "Some [Some ''select name from doctors'']" and sql = "''select name from doctors''"
        and openai = openai_ok and cs = "[]", OF f1] f2
    by (simp add: start_def)
qed

text \<open>
  Claim C5. When \<^verbatim>\<open>get_sql\<close> returns \<^verbatim>\<open>None\<close>, an empty sequence, or a sequence
  whose first element is \<^verbatim>\<open>None\<close> or the empty string, the record of the case has no
  SQL, no exact match, no judgment and the error text \<^verbatim>\<open>Agent returned no SQL.\<close>, and
  the judge is not called for that case.
\<close>

theorem no_sql_is_failure:
  assumes gen: "generate h (question c) (sleep 2 st) = (Inr g, st1)"
      and empty: "g = None \<or> g = Some [] \<or> (\<exists>rest. g = Some (None # rest)) \<or>
                  (\<exists>rest. g = Some (Some [] # rest))"
  shows "evaluate_case openai h c st =
           (\<lparr>res_question = question c, expected_sql = actual_query c, generated_sql = None,
             exact_match = False, llm_judged_equivalent = None,
             error = Some ''Agent returned no SQL.''\<rparr>, st1) \<and>
         filter is_judge_call (trace st1) = filter is_judge_call (trace st)"
proof -
  from empty have "first_sql g = None"
    by (simp add: first_sql_None_iff)
  with gen have "evaluate_case openai h c st =
      (\<lparr>res_question = question c, expected_sql = actual_query c, generated_sql = None,
        exact_match = False, llm_judged_equivalent = None,
        error = Some ''Agent returned no SQL.''\<rparr>, st1)"
    by (simp add: evaluate_case_def try_case_def failure_record_def Let_def)
  moreover from gen have "filter is_judge_call (trace st1) = filter is_judge_call (trace (sleep 2 st))"
    by (rule generate_no_judge)
  ultimately show ?thesis
    by (simp add: sleep_def emit_def is_judge_call_def)
qed

theorem no_sql_is_failure_witness:
  "evaluate_case openai_ok helper_script \<lparr>question = ''empty'', actual_query = ''SELECT 1''\<rparr> start =
     (\<lparr>res_question = ''empty'', expected_sql = ''SELECT 1'', generated_sql = None,
       exact_match = False, llm_judged_equivalent = None, error = Some ''Agent returned no SQL.''\<rparr>,
      \<lparr>world = 1, trace = [Sleep 2, GetSqlCall ''empty'']\<rparr>)"
proof -
  let ?c = "\<lparr>question = ''empty'', actual_query = ''SELECT 1''\<rparr>"
  let ?st1 = "\<lparr>world = Suc 0, trace = [Sleep 2, GetSqlCall ''empty'']\<rparr> :: (nat, event) io"
  have gen: "generate helper_script (question ?c) (sleep 2 start) = (Inr (Some []), ?st1)"
    by (simp add: generate_def call_get_sql_def sleep_def emit_def helper_script_def start_def)
  have empty: "(Some [] :: gen_value) = None \<or> (Some [] :: gen_value) = Some [] \<or>
      (\<exists>rest. (Some [] :: gen_value) = Some (None # rest)) \<or>
      (\<exists>rest. (Some [] :: gen_value) = Some (Some [] # rest))"
    by simp
  show ?thesis
    using no_sql_is_failure [OF gen empty, of openai_ok] by simp
qed

text \<open>
  Claim C6. The docstring of \<open>judge_sql_similarity\<close> promises one of the strings
  \<^verbatim>\<open>Equivalent\<close>, \<^verbatim>\<open>Not Equivalent\<close> and \<^verbatim>\<open>Error\<close>, but the reply of the service is
  returned after trimming without being checked: when the service replies
  \<^verbatim>\<open>Maybe\<close> between two spaces, the function returns \<^verbatim>\<open>Maybe\<close>, which is none of
  the three.
\<close>

theorem judge_three_strings_counterexample:
  "fst (judge_sql_similarity openai_maybe ''q'' ''a'' ''b'' start) = Inr ''Maybe'' \<and>
   ''Maybe'' \<notin> {''Equivalent'', ''Not Equivalent'', ''Error''}"
  by code_simp

text \<open>
  What the function does on every outcome of the external call: it never raises; an
  exception of the call, an empty list of choices and a missing content give
  \<^verbatim>\<open>Error\<close>, and any other reply gives the content of the first choice, trimmed.
\<close>

lemma judge_sql_similarity_result:
  "fst (judge_sql_similarity openai nlq sql1 sql2 st) =
     Inr (case fst (openai (judge_request (judge_prompt nlq sql1 sql2)) (world st)) of
            Inr (Some content # rest) \<Rightarrow> py_strip content
          | _ \<Rightarrow> ''Error'')"
  by (simp add: judge_sql_similarity_returns judge_try_def
      split: prod.splits sum.splits list.splits option.splits)

lemma judge_sql_similarity_examples:
  "fst (judge_sql_similarity openai_ok ''q'' ''a'' ''b'' start) = Inr ''Equivalent'' \<and>
   fst (judge_sql_similarity openai_down ''q'' ''a'' ''b'' start) = Inr ''Error''"
proof -
  have "py_strip '' Equivalent '' = ''Equivalent''"
    by code_simp
  then show ?thesis
    using judge_sql_similarity_result [of openai_ok "''q''" "''a''" "''b''" start]
      judge_sql_similarity_result [of openai_down "''q''" "''a''" "''b''" start]
    by (simp add: openai_ok_def openai_down_def)
qed

text \<open>
  Claim C10. For a case with generated SQL that is not an exact match, the judge is
  called exactly once: \<open>judge_sql_similarity\<close> never returns an exception, so the
  handler around the call (sleep 4 units, call again) is never entered, and the case
  adds exactly one call of the judge, and nothing else, to the trace after the
  generation step.
\<close>

theorem judge_called_exactly_once:
  assumes gen: "generate h (question c) (sleep 2 st) = (Inr g, st1)"
      and sql: "first_sql g = Some sql"
      and ne: "py_lower (py_strip sql) \<noteq> py_lower (py_strip (actual_query c))"
  shows "fst (judge_sql_similarity openai (question c) (actual_query c) sql st1) \<noteq> Inl err \<and>
         judge_with_retry openai (question c) (actual_query c) sql st1 =
           judge_sql_similarity openai (question c) (actual_query c) sql st1 \<and>
         length (filter is_judge_call (trace (snd (evaluate_case openai h c st)))) =
           Suc (length (filter is_judge_call (trace st))) \<and>
         drop (length (trace st1)) (trace (snd (evaluate_case openai h c st))) =
           [JudgeCall (question c) (actual_query c) sql]"
proof -
  have a: "fst (judge_sql_similarity openai (question c) (actual_query c) sql st1) \<noteq> Inl err"
    by (simp add: judge_sql_similarity_returns)
  have b: "judge_with_retry openai (question c) (actual_query c) sql st1 =
      judge_sql_similarity openai (question c) (actual_query c) sql st1"
    by (rule judge_with_retry_once)
  from gen have "filter is_judge_call (trace st1) = filter is_judge_call (trace (sleep 2 st))"
    by (rule generate_no_judge)
  then have pre: "filter is_judge_call (trace st1) = filter is_judge_call (trace st)"
    by (simp add: sleep_def emit_def is_judge_call_def)
  from gen sql ne have tr: "trace (snd (evaluate_case openai h c st)) =
      trace st1 @ [JudgeCall (question c) (actual_query c) sql]"
    by (simp add: evaluate_case_def try_case_def Let_def judge_with_retry_once
        judge_sql_similarity_returns)
  from tr pre have c: "length (filter is_judge_call (trace (snd (evaluate_case openai h c st)))) =
      Suc (length (filter is_judge_call (trace st)))"
    by (simp add: is_judge_call_def)
  from tr have d: "drop (length (trace st1)) (trace (snd (evaluate_case openai h c st))) =
      [JudgeCall (question c) (actual_query c) sql]"
    by simp
  from a b c d show ?thesis by simp
qed

theorem judge_called_exactly_once_witness:
  "length (filter is_judge_call (trace (snd (evaluate_case openai_down helper_script
      \<lparr>question = ''List all doctor names'', actual_query = ''SELECT name FROM doctors;''\<rparr> start)))) = 1 \<and>
   llm_judged_equivalent (fst (evaluate_case openai_down helper_script
      \<lparr>question = ''List all doctor names'', actual_query = ''SELECT name FROM doctors;''\<rparr> start)) =
     Some ''Error''"
proof -
  let ?c = "\<lparr>question = ''List all doctor names'', actual_query = ''SELECT name FROM doctors;''\<rparr>"
  let ?st1 = "\<lparr>world = Suc 0, trace = [Sleep 2, GetSqlCall ''List all doctor names'']\<rparr> :: (nat, event) io"
  have gen: "generate helper_script (question ?c) (sleep 2 start) =
      (Inr (Some [Some ''select name from doctors'']), ?st1)"
    by (simp add: generate_def call_get_sql_def sleep_def emit_def helper_script_def start_def)
  have sql: "first_sql (Some [Some ''select name from doctors'']) = Some ''select name from doctors''"
    by simp
  have ne: "py_lower (py_strip ''select name from doctors'') \<noteq> py_lower (py_strip (actual_query ?c))"
    by code_simp
  have j: "llm_judged_equivalent (fst (evaluate_case openai_down helper_script ?c start)) = Some ''Error''"
    by code_simp
  show ?thesis
    using judge_called_exactly_once [OF gen sql ne, of openai_down] j
    by (simp add: start_def)
qed

section \<open>The tool calls of take_action\<close>

text \<open>
  When every call finds its tool and the tool returns, the loop adds the message of
  each call, in order, to what it has collected.
\<close>

lemma tool_results_length:
  "tool_results agent tcs w = Some (rs, w') \<Longrightarrow> length rs = length tcs"
  by (induction tcs arbitrary: w rs) (auto split: option.splits prod.splits sum.splits)

lemma take_action_loop_results:
  "tool_results agent tcs (world st) = Some (rs, w') \<Longrightarrow>
   take_action_loop agent tcs acc st =
     (Inr (acc @ map (tool_message agent) (zip tcs rs)),
      st\<lparr>world := w', trace := trace st @ map tool_event tcs\<rparr>)"
proof (induction tcs arbitrary: st acc rs)
  case Nil
  then show ?case by simp
next
  case (Cons t ts)
  from Cons.prems obtain tool r w1 rs' where
    reg: "tools agent (tc_name t) = Some tool" and
    call: "tool (tc_args t) (world st) = (Inr r, w1)" and
    rest: "tool_results agent ts w1 = Some (rs', w')" and
    rs: "rs = r # rs'"
    by (auto split: option.splits prod.splits sum.splits)
  let ?st1 = "(emit (tool_event t) st)\<lparr>world := w1\<rparr>"
  have "tool_results agent ts (world ?st1) = Some (rs', w')"
    using rest by simp
  from Cons.IH [OF this, of "acc @ [tool_message agent (t, r)]"]
  show ?case
    using reg call rs
    by (simp add: emit_def tool_event_def tool_message_def)
qed

text \<open>Conversely, the loop returns messages only when every call found its tool and returned.\<close>

lemma take_action_loop_converse:
  "take_action_loop agent tcs acc st = (Inr results, st') \<Longrightarrow>
   \<exists>rs. tool_results agent tcs (world st) = Some (rs, world st')"
proof (induction tcs arbitrary: st acc)
  case Nil
  then show ?case by simp
next
  case (Cons t ts)
  then show ?case
    by (fastforce simp: emit_def split: option.splits prod.splits sum.splits)
qed

lemma last_message_snoc:
  "messages state = ms @ [m] \<Longrightarrow> last_message state = Inr m"
  by (cases ms) (simp_all add: last_message_def)

text \<open>
  Claim C4, as stated, fails: for a call that names a tool that is not in the
  dictionary, \<open>take_action\<close> raises \<^verbatim>\<open>KeyError\<close> and returns no message.
\<close>

theorem take_action_unknown_tool_counterexample:
  "tool_calls (last [HumanMessage ''q'', AIMessage [] [call_1]]) = Inr [call_1] \<and>
   take_action agent_no_tools \<lparr>messages = [HumanMessage ''q'', AIMessage [] [call_1]]\<rparr> start_a =
     (Inl (PyExc KeyError (squote @ ''run_sql'' @ squote)), start_a)"
  by (simp add: take_action_def last_message_def agent_no_tools_def agent_init_def tools_dict_def
      call_1_def key_error_def)

text \<open>
  Claim C4, amended. For every state whose last message is an assistant message with
  tool calls that all name registered tools whose invocations return,
  \<open>take_action\<close> returns one tool-result message per call, in the order of the
  calls; each carries the identifier and the name of its call and \<^verbatim>\<open>str\<close> of the
  result of invoking the named tool with the arguments of the call.
\<close>

theorem take_action_one_message_per_call:
  assumes nonempty: "messages state \<noteq> []"
      and last: "last (messages state) = AIMessage content tcs"
      and invoked: "tool_results agent tcs (world st) = Some (rs, w')"
  shows "take_action agent state st =
           (Inr (map (tool_message agent) (zip tcs rs)),
            st\<lparr>world := w', trace := trace st @ map tool_event tcs\<rparr>) \<and>
         length (map (tool_message agent) (zip tcs rs)) = length tcs \<and>
         length rs = length tcs"
proof -
  from nonempty last have "last_message state = Inr (AIMessage content tcs)"
    by (cases "messages state") (simp_all add: last_message_def)
  then have "take_action agent state st = take_action_loop agent tcs [] st"
    by (simp add: take_action_def)
  moreover have "length rs = length tcs"
    using invoked by (rule tool_results_length)
  ultimately show ?thesis
    using take_action_loop_results [OF invoked, of "[]"] by simp
qed

theorem take_action_one_message_per_call_witness:
  "take_action agent_sql \<lparr>messages = [HumanMessage ''q'', AIMessage [] [call_1, call_1]]\<rparr> start_a =
     (Inr [ToolMessage ''call_1'' ''run_sql'' ''rows of SELECT 1'',
           ToolMessage ''call_1'' ''run_sql'' ''rows of SELECT 1''],
      \<lparr>world = 0, trace = [ToolInvoke ''run_sql'' ''SELECT 1'', ToolInvoke ''run_sql'' ''SELECT 1'']\<rparr>)"
proof -
  let ?state = "\<lparr>messages = [HumanMessage ''q'', AIMessage [] [call_1, call_1]]\<rparr>"
  have nonempty: "messages ?state \<noteq> []" by simp
  have last: "last (messages ?state) = AIMessage [] [call_1, call_1]" by simp
  have invoked: "tool_results agent_sql [call_1, call_1] (world start_a) =
      Some ([''rows of SELECT 1'', ''rows of SELECT 1''], 0)"
    by (simp add: agent_sql_def agent_init_def tools_dict_def call_1_def run_sql_tool_def start_a_def)
  show ?thesis
    using take_action_one_message_per_call [OF nonempty last invoked]
    by (simp add: tool_message_def tool_event_def agent_sql_def agent_init_def call_1_def start_a_def)
qed

section \<open>Runs of the graph\<close>

text \<open>Each step of a node joins what the node returns to the end of the messages.\<close>

lemma graph_step_appends:
  assumes "graph_step agent n state st = (Inr (n', state'), st')"
  shows "\<exists>new. messages state' = messages state @ new"
proof (cases n)
  case Llm
  with assms show ?thesis
    by (auto simp: graph_step_def add_messages_def Let_def split: prod.splits sum.splits)
next
  case Action
  with assms show ?thesis
    by (auto simp: graph_step_def add_messages_def split: prod.splits sum.splits)
next
  case END
  with assms show ?thesis
    by (simp add: graph_step_def)
qed

lemma graph_next_appends:
  "graph_next agent c c' \<Longrightarrow> \<exists>new. messages (fst (snd c')) = messages (fst (snd c)) @ new"
  by (cases c, cases c') (auto simp: graph_next_def dest: graph_step_appends)

lemma graph_reach_appends:
  "(graph_next agent)\<^sup>*\<^sup>* c c' \<Longrightarrow> \<exists>new. messages (fst (snd c')) = messages (fst (snd c)) @ new"
proof (induction rule: rtranclp_induct)
  case base
  show ?case by simp
next
  case (step c' c'')
  from step.IH obtain new where "messages (fst (snd c')) = messages (fst (snd c)) @ new" ..
  moreover from step.hyps(2) obtain new' where
    "messages (fst (snd c'')) = messages (fst (snd c')) @ new'"
    using graph_next_appends by blast
  ultimately have "messages (fst (snd c'')) = messages (fst (snd c)) @ (new @ new')" by simp
  then show ?case ..
qed

text \<open>A run that returns a state has reached it by steps of the nodes.\<close>

lemma graph_run_reaches:
  fixes agent :: "('w, 'a, 'r) agent"
  assumes run: "graph_run agent n state st = Some y"
  shows "case y of
           (Inr final, st') \<Rightarrow> (graph_next agent)\<^sup>*\<^sup>* (n, state, st) (END, final, st')
         | (Inl err, st') \<Rightarrow> True"
proof (rule graph_run.raw_induct
    [where P = "\<lambda>agent n state st y. case y of
           (Inr final, st') \<Rightarrow> (graph_next agent)\<^sup>*\<^sup>* (n, state, st) (END, final, st')
         | (Inl err, st') \<Rightarrow> True", OF _ run])
  fix run and agent :: "('w, 'a, 'r) agent" and n state st y
  assume IH: "\<And>agent n state st y. run agent n state st = Some y \<Longrightarrow>
      (case y of
         (Inr final, st') \<Rightarrow> (graph_next agent)\<^sup>*\<^sup>* (n, state, st) (END, final, st')
       | (Inl err, st') \<Rightarrow> True)"
    and eq: "(if n = END then Some (Inr state, st)
      else case graph_step agent n state st of
             (Inl err, st') \<Rightarrow> Some (Inl err, st')
           | (Inr (n', state'), st') \<Rightarrow> run agent n' state' st') = Some y"
  show "case y of
          (Inr final, st') \<Rightarrow> (graph_next agent)\<^sup>*\<^sup>* (n, state, st) (END, final, st')
        | (Inl err, st') \<Rightarrow> True"
  proof (cases "n = END")
    case True
    with eq show ?thesis by auto
  next
    case False
    obtain r st1 where step: "graph_step agent n state st = (r, st1)"
      by (cases "graph_step agent n state st")
    show ?thesis
    proof (cases r)
      case (Inl err)
      with eq False step show ?thesis by auto
    next
      case (Inr p)
      obtain n1 state1 where p: "p = (n1, state1)" by (cases p)
      from eq False step Inr p have rest: "run agent n1 state1 st1 = Some y" by simp
      from False step Inr p have nxt: "graph_next agent (n, state, st) (n1, state1, st1)"
        by (simp add: graph_next_def)
      from IH [OF rest] nxt show ?thesis
        by (auto split: prod.splits sum.splits intro: converse_rtranclp_into_rtranclp)
    qed
  qed
qed

text \<open>The run of the example agent: a call of the model, the tool, the model again.\<close>

lemma agent_sql_run:
  "graph_invoke agent_sql conv start_a = Some (Inr \<lparr>messages = final_conv\<rparr>, final_io)"
proof -
  let ?s1 = "\<lparr>messages = conv @ [AIMessage [] [call_1]]\<rparr>"
  let ?io1 = "\<lparr>world = Suc 0, trace = [ModelInvoke (SystemMessage ''You write SQL.'' # conv)]\<rparr> :: (nat, string agent_event) io"
  let ?s2 = "\<lparr>messages = conv @ [AIMessage [] [call_1], ToolMessage ''call_1'' ''run_sql'' ''rows of SELECT 1'']\<rparr>"
  let ?io2 = "\<lparr>world = Suc 0, trace = [ModelInvoke (SystemMessage ''You write SQL.'' # conv),
      ToolInvoke ''run_sql'' ''SELECT 1'']\<rparr> :: (nat, string agent_event) io"
  have step1: "graph_step agent_sql Llm \<lparr>messages = conv\<rparr> start_a = (Inr (Action, ?s1), ?io1)"
    by code_simp
  have step2: "graph_step agent_sql Action ?s1 ?io1 = (Inr (Llm, ?s2), ?io2)"
    by code_simp
  have step3: "graph_step agent_sql Llm ?s2 ?io2 = (Inr (END, \<lparr>messages = final_conv\<rparr>), final_io)"
    by code_simp
  have "graph_run agent_sql Llm \<lparr>messages = conv\<rparr> start_a = graph_run agent_sql Action ?s1 ?io1"
    by (subst graph_run.simps) (simp add: step1)
  also have "\<dots> = graph_run agent_sql Llm ?s2 ?io2"
    by (subst graph_run.simps) (simp add: step2)
  also have "\<dots> = graph_run agent_sql END \<lparr>messages = final_conv\<rparr> final_io"
    by (subst graph_run.simps) (simp add: step3)
  also have "\<dots> = Some (Inr \<lparr>messages = final_conv\<rparr>, final_io)"
    by (subst graph_run.simps) simp
  finally show ?thesis by (simp add: graph_invoke_def)
qed

text \<open>
  Claim C7. Along every run of the graph, from any configuration to any configuration
  reached after any number of steps of the nodes \<^verbatim>\<open>llm\<close> and \<^verbatim>\<open>action\<close>, the list of
  messages only grows at its end: it gets no shorter, the messages it had stay at their
  positions, and the later list is the earlier one followed by new messages.
\<close>

theorem messages_append_only:
  assumes "(graph_next agent)\<^sup>*\<^sup>* (n, state, st) (n', state', st')"
  shows "length (messages state) \<le> length (messages state') \<and>
         take (length (messages state)) (messages state') = messages state \<and>
         (\<exists>new. messages state' = messages state @ new)"
proof -
  from graph_reach_appends [OF assms] obtain new where "messages state' = messages state @ new"
    by auto
  then show ?thesis by simp
qed

theorem messages_append_only_witness:
  "length conv \<le> length final_conv \<and> take (length conv) final_conv = conv"
proof -
  have "graph_run agent_sql Llm \<lparr>messages = conv\<rparr> start_a = Some (Inr \<lparr>messages = final_conv\<rparr>, final_io)"
    using agent_sql_run by (simp add: graph_invoke_def)
  from graph_run_reaches [OF this]
  have "(graph_next agent_sql)\<^sup>*\<^sup>* (Llm, \<lparr>messages = conv\<rparr>, start_a) (END, \<lparr>messages = final_conv\<rparr>, final_io)"
    by simp
  from messages_append_only [OF this] show ?thesis by simp
qed

text \<open>
  Claim C8. With a non-empty system prompt, \<open>call_openai\<close> invokes the model on
  the system message followed by the messages of the state, and returns the single
  message of the model. After the step of the node \<^verbatim>\<open>llm\<close> the stored messages are
  the earlier ones followed by that one message, which is not the system message.
\<close>

theorem call_openai_system_not_stored:
  assumes sys: "system agent \<noteq> []"
      and resp: "model agent (SystemMessage (system agent) # messages state) (world st) = (Inr m, w')"
  shows "call_openai agent state st =
           (Inr [m], st\<lparr>world := w',
                       trace := trace st @ [ModelInvoke (SystemMessage (system agent) # messages state)]\<rparr>) \<and>
         messages (add_messages state [m]) = messages state @ [m] \<and>
         (graph_step agent Llm state st = (Inr (n', state'), st') \<longrightarrow>
            messages state' = messages state @ [m] \<and> m \<noteq> SystemMessage (system agent) \<and>
            length (messages state') = Suc (length (messages state)))"
proof -
  from sys resp have call: "call_openai agent state st =
      (Inr [m], st\<lparr>world := w',
                  trace := trace st @ [ModelInvoke (SystemMessage (system agent) # messages state)]\<rparr>)"
    by (simp add: call_openai_def emit_def Let_def)
  have upd: "messages (add_messages state [m]) = messages state @ [m]"
    by (simp add: add_messages_def)
  have "messages state' = messages state @ [m] \<and> m \<noteq> SystemMessage (system agent) \<and>
      length (messages state') = Suc (length (messages state))"
    if step: "graph_step agent Llm state st = (Inr (n', state'), st')"
  proof -
    from step call have ex: "exists_action (add_messages state [m]) \<noteq> Inl err" for err
      by (auto simp: graph_step_def Let_def split: sum.splits)
    from step call have st: "state' = add_messages state [m]"
      by (auto simp: graph_step_def Let_def split: sum.splits)
    have "m \<noteq> SystemMessage (system agent)"
    proof
      assume "m = SystemMessage (system agent)"
      then have "exists_action (add_messages state [m]) =
          Inl (no_attribute ''SystemMessage'' ''tool_calls'')"
        by (simp add: exists_action_def add_messages_def
            last_message_snoc [where ms = "messages state" and m = m])
      with ex show False by blast
    qed
    with st upd show ?thesis by simp
  qed
  with call upd show ?thesis by blast
qed

theorem call_openai_system_not_stored_witness:
  "call_openai agent_sql \<lparr>messages = conv\<rparr> start_a =
     (Inr [AIMessage [] [call_1]],
      \<lparr>world = 1, trace = [ModelInvoke (SystemMessage ''You write SQL.'' # conv)]\<rparr>) \<and>
   graph_step agent_sql Llm \<lparr>messages = conv\<rparr> start_a =
     (Inr (Action, \<lparr>messages = conv @ [AIMessage [] [call_1]]\<rparr>),
      \<lparr>world = 1, trace = [ModelInvoke (SystemMessage ''You write SQL.'' # conv)]\<rparr>)"
proof -
  have sys: "system agent_sql \<noteq> []"
    by (simp add: agent_sql_def agent_init_def)
  have resp: "model agent_sql (SystemMessage (system agent_sql) # messages \<lparr>messages = conv\<rparr>) (world start_a) =
      (Inr (AIMessage [] [call_1]), 1)"
    by (simp add: agent_sql_def agent_init_def model_two_turn_def start_a_def)
  have step: "graph_step agent_sql Llm \<lparr>messages = conv\<rparr> start_a =
     (Inr (Action, \<lparr>messages = conv @ [AIMessage [] [call_1]]\<rparr>),
      \<lparr>world = 1, trace = [ModelInvoke (SystemMessage ''You write SQL.'' # conv)]\<rparr>)"
    by code_simp
  show ?thesis
    using call_openai_system_not_stored [OF sys resp, of Action "\<lparr>messages = conv @ [AIMessage [] [call_1]]\<rparr>"
        "\<lparr>world = 1, trace = [ModelInvoke (SystemMessage ''You write SQL.'' # conv)]\<rparr>"] step
    by (simp add: agent_sql_def agent_init_def start_a_def)
qed

text \<open>
  Claim C9, as stated, fails: the run starts with a call of the model, and where it
  goes next depends on the answer to that call, not on the messages it was given. On a
  conversation that ends with an assistant message without tool calls, a model that
  answers with a tool call makes the run call a tool and the model a second time.
\<close>

theorem run_again_counterexample:
  "last conv = AIMessage ''SELECT name FROM doctors'' [] \<and>
   graph_invoke agent_sql conv start_a = Some (Inr \<lparr>messages = final_conv\<rparr>, final_io) \<and>
   length final_conv = length conv + 3 \<and>
   length (filter is_model_invoke (trace final_io)) = 2 \<and>
   ToolInvoke ''run_sql'' ''SELECT 1'' \<in> set (trace final_io)"
proof -
  have "last conv = AIMessage ''SELECT name FROM doctors'' []"
    by (simp add: conv_def)
  moreover have "length final_conv = length conv + 3"
    by (simp add: final_conv_def)
  moreover have "length (filter is_model_invoke (trace final_io)) = 2"
    by (simp add: final_io_def is_model_invoke_def)
  moreover have "ToolInvoke ''run_sql'' ''SELECT 1'' \<in> set (trace final_io)"
    by (simp add: final_io_def)
  ultimately show ?thesis
    using agent_sql_run by simp
qed

text \<open>
  Claim C9, amended. Whenever the model answers the conversation (behind the system
  message, if one is configured) with an assistant message without tool calls, the run
  returns after exactly one call of the model, with exactly that message added to the
  conversation and no tool called.
\<close>

theorem run_single_model_call:
  assumes resp: "model agent (if system agent \<noteq> [] then SystemMessage (system agent) # msgs else msgs)
                   (world st) = (Inr (AIMessage content []), w')"
  shows "graph_invoke agent msgs st =
           Some (Inr \<lparr>messages = msgs @ [AIMessage content []]\<rparr>,
                 st\<lparr>world := w',
                    trace := trace st @
                      [ModelInvoke (if system agent \<noteq> [] then SystemMessage (system agent) # msgs else msgs)]\<rparr>)"
proof -
  let ?st' = "st\<lparr>world := w',
      trace := trace st @
        [ModelInvoke (if system agent \<noteq> [] then SystemMessage (system agent) # msgs else msgs)]\<rparr>"
  from resp have call: "call_openai agent \<lparr>messages = msgs\<rparr> st = (Inr [AIMessage content []], ?st')"
    by (simp add: call_openai_def emit_def Let_def split: if_splits)
  have route: "exists_action \<lparr>messages = msgs @ [AIMessage content []]\<rparr> = Inr False"
    by (simp add: exists_action_def
        last_message_snoc [where ms = msgs and m = "AIMessage content []"])
  from call route have step: "graph_step agent Llm \<lparr>messages = msgs\<rparr> st =
      (Inr (END, \<lparr>messages = msgs @ [AIMessage content []]\<rparr>), ?st')"
    by (simp add: graph_step_def add_messages_def Let_def)
  have "graph_run agent Llm \<lparr>messages = msgs\<rparr> st =
      graph_run agent END \<lparr>messages = msgs @ [AIMessage content []]\<rparr> ?st'"
    by (subst graph_run.simps) (simp add: step)
  also have "\<dots> = Some (Inr \<lparr>messages = msgs @ [AIMessage content []]\<rparr>, ?st')"
    by (subst graph_run.simps) simp
  finally show ?thesis by (simp add: graph_invoke_def)
qed

theorem run_single_model_call_witness:
  "graph_invoke agent_sql final_conv \<lparr>world = 2, trace = []\<rparr> =
     Some (Inr \<lparr>messages = final_conv @ [AIMessage ''done'' []]\<rparr>,
           \<lparr>world = 3, trace = [ModelInvoke (SystemMessage ''You write SQL.'' # final_conv)]\<rparr>)"
proof -
  have resp: "model agent_sql (if system agent_sql \<noteq> [] then SystemMessage (system agent_sql) # final_conv
      else final_conv) (world \<lparr>world = 2, trace = []\<rparr>) = (Inr (AIMessage ''done'' []), 3)"
    by (simp add: agent_sql_def agent_init_def model_two_turn_def)
  show ?thesis
    using run_single_model_call [OF resp] by (simp add: agent_sql_def agent_init_def)
qed

end
